theory Spec2Isabelle
  imports Complex_Main "HOL-Library.Word" "HOL-Library.Multiset"
begin

section \<open>Data model of \<^verbatim>\<open>src/src/extension.ts\<close>\<close>

text \<open>
  A JavaScript string is a sequence of UTF-16 code units. The literals of the source that
  are not ASCII are written out as their code units.
\<close>

type_synonym jsstring = "16 word list"

text \<open>
  A value of type \<^verbatim>\<open>string\<close> that may be \<^verbatim>\<open>undefined\<close> at run time (the first
  element of an empty array): \<open>None\<close> is \<^verbatim>\<open>undefined\<close>.
\<close>

type_synonym jsvalue = "jsstring option"

text \<open>The union type \<^verbatim>\<open>string | string[]\<close> of the fields of a word.\<close>

datatype str_or_array = Str jsstring | Arr "jsstring list"

text \<open>An element of \<^verbatim>\<open>examples\<close>: \<^verbatim>\<open>{ japanese: string; chinese: string }\<close>.\<close>

record Example =
  ex_japanese :: jsstring
  ex_chinese :: jsstring

text \<open>
  \<^verbatim>\<open>interface JapaneseWord\<close> (lines 8-21). The field \<^verbatim>\<open>id\<close> is named \<open>id_w\<close>;
  an optional field that is absent is \<open>None\<close>.
\<close>

record JapaneseWord =
  id_w :: jsstring
  japanese :: str_or_array
  reading :: str_or_array
  kana :: str_or_array
  chinese :: str_or_array
  category :: jsstring
  level :: "jsstring option"
  partOfSpeech :: "str_or_array option"
  examples :: "Example list option"

text \<open>
  \<^verbatim>\<open>interface VocabularyResponse\<close> (lines 24-29). \<open>data\<close> is the object as
  \<^verbatim>\<open>Object.entries\<close> enumerates it: the level names with their words, in order.
\<close>

record VocabularyResponse =
  success :: bool
  data :: "(jsstring \<times> JapaneseWord list) list"

text \<open>
  The expression \<^verbatim>\<open>Array.isArray(x) ? x[0] : x\<close>, used for every projection of a word.
  Reading index 0 of an empty array gives \<^verbatim>\<open>undefined\<close>.
\<close>

fun first_of :: "str_or_array \<Rightarrow> jsvalue" where
  "first_of (Arr []) = None"
| "first_of (Arr (x # xs)) = Some x"
| "first_of (Str s) = Some s"

text \<open>A value inside a template literal: \<^verbatim>\<open>undefined\<close> prints as the word itself.\<close>

fun template_str :: "jsvalue \<Rightarrow> jsstring" where
  "template_str None = [0x75, 0x6E, 0x64, 0x65, 0x66, 0x69, 0x6E, 0x65, 0x64]"
| "template_str (Some s) = s"

section \<open>The heap of arrays and the random source\<close>

text \<open>
  A value of \<^verbatim>\<open>Math.random()\<close>: a number that is at least 0 and less than 1.
\<close>

typedef unit_real = "{0..<1::real}"
  by (rule exI [of _ 0]) simp

setup_lifting type_definition_unit_real

text \<open>
  Arrays of words are mutable objects: \<^verbatim>\<open>filter\<close> and an array literal allocate a new
  one, \<^verbatim>\<open>push\<close> and \<^verbatim>\<open>splice\<close> change one in place. The world holds every array under
  its address, the next free address, and the source of \<^verbatim>\<open>Math.random()\<close>: the
  sequence of the values it returns and the number of calls made so far. Words themselves
  are never mutated by the source, so they are values.
\<close>

type_synonym addr = nat

record world =
  arrays :: "addr \<Rightarrow> JapaneseWord list"
  next_addr :: addr
  rand_seq :: "nat \<Rightarrow> unit_real"
  rand_pos :: nat

text \<open>A new array object with the given contents, at a fresh address.\<close>

definition alloc :: "JapaneseWord list \<Rightarrow> world \<Rightarrow> addr \<times> world" where
  "alloc xs s =
     (next_addr s, s\<lparr>arrays := (arrays s)(next_addr s := xs), next_addr := Suc (next_addr s)\<rparr>)"

text \<open>\<^verbatim>\<open>a.push(w)\<close>\<close>

definition push :: "addr \<Rightarrow> JapaneseWord \<Rightarrow> world \<Rightarrow> world" where
  "push a w s = s\<lparr>arrays := (arrays s)(a := arrays s a @ [w])\<rparr>"

text \<open>
  \<^verbatim>\<open>a.splice(index, 1)\<close> for an index inside the array: the element there is removed,
  in place.
\<close>

definition splice_js :: "addr \<Rightarrow> nat \<Rightarrow> world \<Rightarrow> world" where
  "splice_js a index s =
     s\<lparr>arrays := (arrays s)(a := take index (arrays s a) @ drop (Suc index) (arrays s a))\<rparr>"

text \<open>
  \<^verbatim>\<open>Math.floor(u * n)\<close> for a value \<open>u\<close> of \<^verbatim>\<open>Math.random()\<close> and a length \<open>n\<close>. The
  product is taken as the exact product of the two numbers; it is never negative, so the
  floor is a natural number.
\<close>

definition floor_scaled :: "unit_real \<Rightarrow> nat \<Rightarrow> nat" where
  "floor_scaled u n = nat \<lfloor>Rep_unit_real u * real n\<rfloor>"

text \<open>
  \<^verbatim>\<open>Math.floor(Math.random() * n)\<close>: one call of \<^verbatim>\<open>Math.random()\<close>, counted in
  \<open>rand_pos\<close>, and the floor of its value times \<open>n\<close>.
\<close>

definition random_index :: "nat \<Rightarrow> world \<Rightarrow> nat \<times> world" where
  "random_index n s =
     (floor_scaled (rand_seq s (rand_pos s)) n, s\<lparr>rand_pos := Suc (rand_pos s)\<rparr>)"

text \<open>Reading \<^verbatim>\<open>xs[i]\<close>: \<^verbatim>\<open>undefined\<close> (\<open>None\<close>) outside the array.\<close>

definition array_get :: "'a list \<Rightarrow> nat \<Rightarrow> 'a option" where
  "array_get xs i = (if i < length xs then Some (xs ! i) else None)"

section \<open>\<^verbatim>\<open>class JapaneseWordManager\<close>\<close>

text \<open>
  The fields of the manager that its logic reads and writes: \<^verbatim>\<open>words\<close> is a reference
  to an array, \<^verbatim>\<open>currentWord\<close> is \<^verbatim>\<open>null\<close> (\<open>None\<close>) or a word. The status bar item and
  the timer are presentation.
\<close>

record JapaneseWordManager =
  words :: addr
  currentWord :: "JapaneseWord option"

text \<open>
  The field initialisers of lines 39-40, run when \<^verbatim>\<open>activate\<close> constructs the manager:
  \<^verbatim>\<open>words\<close> refers to a new empty array.
\<close>

definition new_JapaneseWordManager :: "world \<Rightarrow> JapaneseWordManager \<times> world" where
  "new_JapaneseWordManager s =
     (let (a, s1) = alloc [] s in (\<lparr>words = a, currentWord = None\<rparr>, s1))"

text \<open>\<^verbatim>\<open>getRandomWord\<close> (lines 153-158).\<close>

definition getRandomWord :: "JapaneseWordManager \<Rightarrow> world \<Rightarrow> JapaneseWord option \<times> world" where
  "getRandomWord m s =
     (if length (arrays s (words m)) = 0 then (None, s)
      else (let (k, s1) = random_index (length (arrays s (words m))) s
            in (array_get (arrays s1 (words m)) k, s1)))"

text \<open>\<^verbatim>\<open>getWordsCount\<close> (lines 379-381).\<close>

definition getWordsCount :: "JapaneseWordManager \<Rightarrow> world \<Rightarrow> nat" where
  "getWordsCount m s = length (arrays s (words m))"

text \<open>\<^verbatim>\<open>getRandomWordForQuiz\<close> (lines 384-386).\<close>

definition getRandomWordForQuiz :: "JapaneseWordManager \<Rightarrow> world \<Rightarrow> JapaneseWord option \<times> world" where
  "getRandomWordForQuiz m s = getRandomWord m s"

subsection \<open>The distractor sampler\<close>

text \<open>
  The \<^verbatim>\<open>while\<close> loop of \<^verbatim>\<open>getRandomMeanings\<close> (lines 393-404), which
  \<^verbatim>\<open>getRandomReadings\<close> (lines 414-425) and \<^verbatim>\<open>getRandomWords\<close> (lines 435-446) repeat
  with another field: \<open>proj\<close> is the projection of the drawn word, \<open>otherWords\<close> the address
  of the local array, \<open>meanings\<close> the result so far. \<^verbatim>\<open>count\<close> is a length to reach,
  a natural number (every call of the source passes 3).

  The guard gives \<open>0 < length\<close>, so the drawn index is inside the array. Every element of
  \<^verbatim>\<open>this.words\<close> is an object of its own (lines 68 and 89-115 create each one), so
  \<^verbatim>\<open>otherWords.indexOf(randomWord)\<close>, which compares by identity, is the drawn index.
\<close>

function sample_loop ::
  "(JapaneseWord \<Rightarrow> jsvalue) \<Rightarrow> nat \<Rightarrow> addr \<Rightarrow> jsvalue list \<Rightarrow> world \<Rightarrow> jsvalue list \<times> world"
where
  "sample_loop proj count_n otherWords meanings s =
     (if length meanings < count_n \<and> 0 < length (arrays s otherWords) then
        (let (k, s1) = random_index (length (arrays s otherWords)) s;
             randomWord = arrays s1 otherWords ! k;
             meaning = proj randomWord;
             meanings1 = (if meaning \<in> set meanings then meanings else meanings @ [meaning]);
             index = k
         in sample_loop proj count_n otherWords meanings1 (splice_js otherWords index s1))
      else (meanings, s))"
  by pat_completeness auto
termination
proof (relation "measure (\<lambda>(proj, count_n, otherWords, meanings, s). length (arrays s otherWords))")
  show "wf (measure (\<lambda>(proj, count_n, otherWords, meanings, s). length (arrays s otherWords)))"
    by simp
next
  fix proj :: "JapaneseWord \<Rightarrow> jsvalue" and meanings xc :: "jsvalue list"
    and count_n otherWords s x k s1 xa xb xd
  assume guard: "length meanings < count_n \<and> 0 < length (arrays s otherWords)"
    and draw: "x = random_index (length (arrays s otherWords)) s" "(k, s1) = x"
    and "xd = k"
  have "floor_scaled (rand_seq s (rand_pos s)) (length (arrays s otherWords))
      < length (arrays s otherWords)"
  proof -
    let ?u = "Rep_unit_real (rand_seq s (rand_pos s))"
    let ?n = "length (arrays s otherWords)"
    have "0 \<le> ?u" and "?u < 1"
      using Rep_unit_real [of "rand_seq s (rand_pos s)"] by simp_all
    with guard have "0 \<le> ?u * real ?n" and "?u * real ?n < real ?n"
      by simp_all
    then have "0 \<le> \<lfloor>?u * real ?n\<rfloor>" and "\<lfloor>?u * real ?n\<rfloor> < int ?n"
      by (simp_all add: floor_less_iff)
    then show ?thesis
      unfolding floor_scaled_def by linarith
  qed
  with draw have "k < length (arrays s otherWords)" and "arrays s1 otherWords = arrays s otherWords"
    using guard by (auto simp: random_index_def)
  then have "length (arrays (splice_js otherWords k s1) otherWords) < length (arrays s otherWords)"
    by (simp add: splice_js_def)
  with \<open>xd = k\<close>
  show "((proj, count_n, otherWords, xc, splice_js otherWords xd s1),
         (proj, count_n, otherWords, meanings, s))
        \<in> measure (\<lambda>(proj, count_n, otherWords, meanings, s). length (arrays s otherWords))"
    by simp
qed

declare sample_loop.simps [simp del]

text \<open>\<^verbatim>\<open>getRandomMeanings\<close> (lines 389-407).\<close>

definition getRandomMeanings ::
  "jsstring \<Rightarrow> nat \<Rightarrow> JapaneseWordManager \<Rightarrow> world \<Rightarrow> jsvalue list \<times> world" where
  "getRandomMeanings excludeId count_n m s =
     (let (otherWords, s1) = alloc (filter (\<lambda>word. id_w word \<noteq> excludeId) (arrays s (words m))) s
      in sample_loop (\<lambda>randomWord. first_of (chinese randomWord)) count_n otherWords [] s1)"

text \<open>\<^verbatim>\<open>getRandomReadings\<close> (lines 410-428).\<close>

definition getRandomReadings ::
  "jsstring \<Rightarrow> nat \<Rightarrow> JapaneseWordManager \<Rightarrow> world \<Rightarrow> jsvalue list \<times> world" where
  "getRandomReadings excludeId count_n m s =
     (let (otherWords, s1) = alloc (filter (\<lambda>word. id_w word \<noteq> excludeId) (arrays s (words m))) s
      in sample_loop (\<lambda>randomWord. first_of (reading randomWord)) count_n otherWords [] s1)"

text \<open>\<^verbatim>\<open>getRandomWords\<close> (lines 431-449).\<close>

definition getRandomWords ::
  "jsstring \<Rightarrow> nat \<Rightarrow> JapaneseWordManager \<Rightarrow> world \<Rightarrow> jsvalue list \<times> world" where
  "getRandomWords excludeId count_n m s =
     (let (otherWords, s1) = alloc (filter (\<lambda>word. id_w word \<noteq> excludeId) (arrays s (words m))) s
      in sample_loop (\<lambda>randomWord. first_of (japanese randomWord)) count_n otherWords [] s1)"

text \<open>
  The three samplers as one operation over a projection, the way the claims name it:
  \<open>sample Meaning\<close> is \<^verbatim>\<open>getRandomMeanings\<close>, \<open>sample Reading\<close> is
  \<^verbatim>\<open>getRandomReadings\<close>, \<open>sample WrittenForm\<close> is \<^verbatim>\<open>getRandomWords\<close>.
\<close>

datatype projection = Meaning | Reading | WrittenForm

fun project :: "projection \<Rightarrow> JapaneseWord \<Rightarrow> jsvalue" where
  "project Meaning w = first_of (chinese w)"
| "project Reading w = first_of (reading w)"
| "project WrittenForm w = first_of (japanese w)"

fun sample ::
  "projection \<Rightarrow> jsstring \<Rightarrow> nat \<Rightarrow> JapaneseWordManager \<Rightarrow> world \<Rightarrow> jsvalue list \<times> world" where
  "sample Meaning excludeId count_n m s = getRandomMeanings excludeId count_n m s"
| "sample Reading excludeId count_n m s = getRandomReadings excludeId count_n m s"
| "sample WrittenForm excludeId count_n m s = getRandomWords excludeId count_n m s"

text \<open>
  The candidate pool of a call: the words of the store whose id is not \<^verbatim>\<open>excludeId\<close>
  (the \<^verbatim>\<open>filter\<close> of lines 390, 411 and 432).
\<close>

definition candidate_pool :: "jsstring \<Rightarrow> JapaneseWordManager \<Rightarrow> world \<Rightarrow> JapaneseWord list" where
  "candidate_pool excludeId m s = filter (\<lambda>word. id_w word \<noteq> excludeId) (arrays s (words m))"


subsection \<open>The quiz question\<close>

text \<open>An element of \<^verbatim>\<open>options\<close>: \<^verbatim>\<open>{ text, isCorrect }\<close>; the field \<^verbatim>\<open>text\<close> is \<open>option_text\<close>.\<close>

record QuizOption =
  option_text :: jsvalue
  isCorrect :: bool

text \<open>The strings \<^verbatim>\<open>'meaning'\<close>, \<^verbatim>\<open>'reading'\<close> and \<^verbatim>\<open>'word'\<close> of line 640.\<close>

datatype QuestionType = Q_meaning | Q_reading | Q_word

definition questionTypes :: "QuestionType list" where
  "questionTypes = [Q_meaning, Q_reading, Q_word]"

text \<open>
  The destructuring swap \<^verbatim>\<open>[options[i], options[j]] = [options[j], options[i]]\<close>:
  the right side is read first, then index \<open>i\<close> is written, then index \<open>j\<close>.
\<close>

definition swap :: "nat \<Rightarrow> nat \<Rightarrow> 'a list \<Rightarrow> 'a list" where
  "swap i j xs = (xs[i := xs ! j])[j := xs ! i]"

text \<open>
  The loop \<^verbatim>\<open>for (let i = options.length - 1; i > 0; i--)\<close> of lines 678-681 (and
  530-533), from the index \<open>i\<close> on: each round draws \<open>j\<close> with
  \<^verbatim>\<open>Math.floor(Math.random() * (i + 1))\<close> and swaps.
\<close>

fun shuffle_loop :: "nat \<Rightarrow> 'a list \<Rightarrow> world \<Rightarrow> 'a list \<times> world" where
  "shuffle_loop 0 opts s = (opts, s)"
| "shuffle_loop (Suc i) opts s =
     (let (j, s1) = random_index (Suc i + 1) s
      in shuffle_loop i (swap (Suc i) j opts) s1)"

text \<open>
  The loop from its first index, \<^verbatim>\<open>options.length - 1\<close>. For the empty array that
  is -1 and the loop does not run, as with the truncated subtraction here.
\<close>

definition shuffle :: "'a list \<Rightarrow> world \<Rightarrow> 'a list \<times> world" where
  "shuffle opts s = shuffle_loop (length opts - 1) opts s"

text \<open>The fixed parts of the three question templates (lines 650, 657 and 664).\<close>

definition q_prefix :: jsstring where
  "q_prefix = [0x8ACB, 0x9078, 0x64C7, 0x300C]"

definition q_meaning_suffix :: jsstring where
  "q_meaning_suffix = [0x300D, 0x7684, 0x6B63, 0x78BA, 0x610F, 0x601D, 0xFF1A]"

definition q_reading_suffix :: jsstring where
  "q_reading_suffix = [0x300D, 0x7684, 0x6B63, 0x78BA, 0x8B80, 0x97F3, 0xFF1A]"

definition q_word_prefix :: jsstring where
  "q_word_prefix = [0x54EA, 0x500B, 0x6F22, 0x5B57, 0x7684, 0x610F, 0x601D, 0x662F, 0x300C]"

definition q_word_suffix :: jsstring where
  "q_word_suffix = [0x300D, 0xFF1F]"

text \<open>
  The \<^verbatim>\<open>switch\<close> of lines 647-669: the question text, the correct answer and the wrong
  answers for the drawn type.
\<close>

fun question_parts ::
  "QuestionType \<Rightarrow> JapaneseWord \<Rightarrow> JapaneseWordManager \<Rightarrow> world
     \<Rightarrow> (jsstring \<times> jsvalue \<times> jsvalue list) \<times> world" where
  "question_parts Q_meaning targetWord m s =
     (let japanese1 = first_of (japanese targetWord);
          questionText = q_prefix @ template_str japanese1 @ q_meaning_suffix;
          correctAnswer = first_of (chinese targetWord);
          (wrongAnswers, s1) = getRandomMeanings (id_w targetWord) 3 m s
      in ((questionText, correctAnswer, wrongAnswers), s1))"
| "question_parts Q_reading targetWord m s =
     (let japanese2 = first_of (japanese targetWord);
          questionText = q_prefix @ template_str japanese2 @ q_reading_suffix;
          correctAnswer = first_of (reading targetWord);
          (wrongAnswers, s1) = getRandomReadings (id_w targetWord) 3 m s
      in ((questionText, correctAnswer, wrongAnswers), s1))"
| "question_parts Q_word targetWord m s =
     (let meaning = first_of (chinese targetWord);
          questionText = q_word_prefix @ template_str meaning @ q_word_suffix;
          japanese3 = first_of (japanese targetWord);
          correctAnswer = japanese3;
          (wrongAnswers, s1) = getRandomWords (id_w targetWord) 3 m s
      in ((questionText, correctAnswer, wrongAnswers), s1))"

text \<open>The option array of lines 672-675 (and 524-527), before it is shuffled.\<close>

definition make_options :: "jsvalue \<Rightarrow> jsvalue list \<Rightarrow> QuizOption list" where
  "make_options correctAnswer wrongAnswers =
     \<lparr>option_text = correctAnswer, isCorrect = True\<rparr>
       # map (\<lambda>answer. \<lparr>option_text = answer, isCorrect = False\<rparr>) wrongAnswers"

text \<open>The object that \<^verbatim>\<open>generateQuizQuestion\<close> returns (lines 683-688).\<close>

record QuizQuestion =
  questionText :: jsstring
  options :: "QuizOption list"
  correctAnswer :: jsvalue
  targetWord :: JapaneseWord

text \<open>
  \<^verbatim>\<open>generateQuizQuestion\<close> (lines 628-689). The global \<^verbatim>\<open>wordManager\<close> is \<open>None\<close>
  before \<^verbatim>\<open>activate\<close> has set it; the result \<open>None\<close> is \<^verbatim>\<open>null\<close>. The locals that
  share a name with a field of the result carry a 1.
\<close>

definition generateQuizQuestion ::
  "JapaneseWordManager option \<Rightarrow> world \<Rightarrow> QuizQuestion option \<times> world" where
  "generateQuizQuestion wordManager s =
     (case wordManager of
        None \<Rightarrow> (None, s)
      | Some m \<Rightarrow>
          if getWordsCount m s = 0 then (None, s)
          else
            (case getRandomWordForQuiz m s of
               (None, s1) \<Rightarrow> (None, s1)
             | (Some targetWord1, s1) \<Rightarrow>
                 (let (t, s2) = random_index (length questionTypes) s1;
                      questionType = questionTypes ! t;
                      ((questionText1, correctAnswer1, wrongAnswers), s3) =
                        question_parts questionType targetWord1 m s2;
                      (options1, s4) = shuffle (make_options correctAnswer1 wrongAnswers) s3
                  in (Some \<lparr>questionText = questionText1, options = options1,
                              correctAnswer = correctAnswer1, targetWord = targetWord1\<rparr>, s4))))"

subsection \<open>The example-sentence question\<close>

text \<open>
  The messages of \<^verbatim>\<open>vscode.window.showErrorMessage\<close>, \<^verbatim>\<open>showWarningMessage\<close> and
  \<^verbatim>\<open>showInformationMessage\<close>.
\<close>

datatype notification =
  ErrorMessage jsstring | WarningMessage jsstring | InformationMessage jsstring

text \<open>The texts of lines 505, 512 and 564, and the fixed parts of the template of line 535.\<close>

definition msg_load_first :: jsstring where
  "msg_load_first = [0x8ACB, 0x5148, 0x8F09, 0x5165, 0x65E5, 0x6587, 0x55AE, 0x5B57, 0x6578, 0x64DA]"

definition msg_no_examples :: jsstring where
  "msg_no_examples = [0x76EE, 0x524D, 0x6C92, 0x6709, 0x53EF, 0x7528, 0x7684, 0x4F8B, 0x53E5]"

definition msg_example_error :: jsstring where
  "msg_example_error = [0x4F8B, 0x53E5, 0x7DF4, 0x7FD2, 0x529F, 0x80FD, 0x767C, 0x751F, 0x932F,
     0x8AA4, 0xFF0C, 0x8ACB, 0x7A0D, 0x5F8C, 0x518D, 0x8A66]"

definition ex_prefix :: jsstring where
  "ex_prefix = [0x4EE5, 0x4E0B, 0x4F8B, 0x53E5, 0x4E2D, 0x7684, 0x300C]"

definition ex_middle :: jsstring where
  "ex_middle = [0x300D, 0x662F, 0x4EC0, 0x9EBC, 0x610F, 0x601D, 0xFF1F, 0xA, 0xA, 0x4F8B, 0x53E5,
     0xFF1A]"

definition newline :: jsstring where
  "newline = [0xA]"

text \<open>\<^verbatim>\<open>word.examples && word.examples.length > 0\<close> (line 576).\<close>

definition has_examples :: "JapaneseWord \<Rightarrow> bool" where
  "has_examples word = (case examples word of None \<Rightarrow> False | Some es \<Rightarrow> 0 < length es)"

text \<open>\<^verbatim>\<open>getWordsWithExamples\<close> (lines 569-578). The array it returns is only read.\<close>

definition getWordsWithExamples :: "JapaneseWordManager option \<Rightarrow> world \<Rightarrow> JapaneseWord list" where
  "getWordsWithExamples wordManager s =
     (case wordManager of
        None \<Rightarrow> []
      | Some m \<Rightarrow> filter has_examples (arrays s (words m)))"

text \<open>
  \<^verbatim>\<open>showExampleQuiz\<close> (lines 502-566) up to its call of \<^verbatim>\<open>showQuickPick\<close>: the
  result is the message shown on an early return (\<open>Inl\<close>), or the question put to the user
  with the example it embeds (\<open>Inr\<close>). What follows the user's choice is presentation.

  A \<^verbatim>\<open>TypeError\<close> inside the \<^verbatim>\<open>try\<close> is caught at line 562 and shown as an error
  message: reading \<^verbatim>\<open>.length\<close> of absent examples (line 518, after the call of
  \<^verbatim>\<open>Math.random()\<close>), or a field of an \<^verbatim>\<open>undefined\<close> example (line 535).
\<close>

definition showExampleQuiz ::
  "JapaneseWordManager option \<Rightarrow> world \<Rightarrow> (notification + QuizQuestion \<times> Example) \<times> world" where
  "showExampleQuiz wordManager s =
     (case wordManager of
        None \<Rightarrow> (Inl (WarningMessage msg_load_first), s)
      | Some m \<Rightarrow>
          if getWordsCount m s = 0 then (Inl (WarningMessage msg_load_first), s)
          else
            (let wordsWithExamples = getWordsWithExamples wordManager s
             in if length wordsWithExamples = 0
                then (Inl (InformationMessage msg_no_examples), s)
                else
                  (let (k, s1) = random_index (length wordsWithExamples) s;
                       targetWord1 = wordsWithExamples ! k;
                       (e, s2) = random_index
                         (case examples targetWord1 of None \<Rightarrow> 0 | Some es \<Rightarrow> length es) s1
                   in case examples targetWord1 of
                        None \<Rightarrow> (Inl (ErrorMessage msg_example_error), s2)
                      | Some es \<Rightarrow>
                          (let randomExample = array_get es e;
                               correctAnswer1 = first_of (chinese targetWord1);
                               (wrongAnswers, s3) = getRandomMeanings (id_w targetWord1) 3 m s2;
                               (options1, s4) = shuffle (make_options correctAnswer1 wrongAnswers) s3
                           in case randomExample of
                                None \<Rightarrow> (Inl (ErrorMessage msg_example_error), s4)
                              | Some ex \<Rightarrow>
                                  (Inr (\<lparr>questionText =
                                           ex_prefix @ template_str (first_of (japanese targetWord1))
                                             @ ex_middle @ ex_japanese ex @ newline @ ex_chinese ex,
                                         options = options1,
                                         correctAnswer = correctAnswer1,
                                         targetWord = targetWord1\<rparr>, ex), s4)))))"

subsection \<open>Loading the vocabulary\<close>

text \<open>
  What the network does to the request of \<^verbatim>\<open>makeApiRequest\<close> (lines 121-150): the
  \<^verbatim>\<open>error\<close> event, the 5 second timeout, or a response with its status code and body.
\<close>

datatype http_outcome = ConnectionError | TimedOut | Responded nat jsstring

text \<open>What is thrown inside the \<^verbatim>\<open>try\<close> of \<^verbatim>\<open>loadVocabularyData\<close>.\<close>

datatype js_error =
  NetworkError | ApiTimeout | ApiRequestFailed nat | JsonSyntaxError | ApiResponseFailed

text \<open>\<^verbatim>\<open>makeApiRequest\<close>: the promise resolves with the body of a response of status 200.\<close>

fun makeApiRequest :: "http_outcome \<Rightarrow> js_error + jsstring" where
  "makeApiRequest (Responded statusCode body) =
     (if statusCode = 200 then Inr body else Inl (ApiRequestFailed statusCode))"
| "makeApiRequest ConnectionError = Inl NetworkError"
| "makeApiRequest TimedOut = Inl ApiTimeout"

text \<open>The text of line 80.\<close>

definition msg_load_failed :: jsstring where
  "msg_load_failed = [0x7121, 0x6CD5, 0x8F09, 0x5165, 0x65E5, 0x6587, 0x55AE, 0x5B57, 0x6578,
     0x64DA, 0xFF0C, 0x4F7F, 0x7528, 0x5099, 0x7528, 0x55AE, 0x5B57]"

text \<open>The array literal of \<^verbatim>\<open>loadDefaultWords\<close> (lines 88-116).\<close>

definition defaultWords :: "JapaneseWord list" where
  "defaultWords =
     [\<lparr>id_w = [0x31],
       japanese = Str [0x5B66, 0x6821],
       reading = Str [0x304C, 0x3063, 0x3053, 0x3046],
       kana = Str [0x304C, 0x3063, 0x3053, 0x3046],
       chinese = Arr [[0x5B78, 0x6821]],
       category = [0x540D, 0x8A5E],
       level = Some [0x4E, 0x35],
       partOfSpeech = None,
       examples = None\<rparr>,
      \<lparr>id_w = [0x32],
       japanese = Str [0x52C9, 0x5F37],
       reading = Str [0x3079, 0x3093, 0x304D, 0x3087, 0x3046],
       kana = Str [0x3079, 0x3093, 0x304D, 0x3087, 0x3046],
       chinese = Arr [[0x5B78, 0x7FD2], [0x5FF5, 0x66F8]],
       category = [0x540D, 0x8A5E],
       level = Some [0x4E, 0x34],
       partOfSpeech = None,
       examples = None\<rparr>,
      \<lparr>id_w = [0x33],
       japanese = Str [0x5148, 0x751F],
       reading = Str [0x305B, 0x3093, 0x305B, 0x3044],
       kana = Str [0x305B, 0x3093, 0x305B, 0x3044],
       chinese = Arr [[0x8001, 0x5E2B]],
       category = [0x540D, 0x8A5E],
       level = Some [0x4E, 0x35],
       partOfSpeech = None,
       examples = None\<rparr>]"

text \<open>\<^verbatim>\<open>loadDefaultWords\<close> (lines 87-118): \<^verbatim>\<open>this.words\<close> refers to a new array.\<close>

definition loadDefaultWords :: "JapaneseWordManager \<Rightarrow> world \<Rightarrow> JapaneseWordManager \<times> world" where
  "loadDefaultWords m s = (let (a, s1) = alloc defaultWords s in (m\<lparr>words := a\<rparr>, s1))"

text \<open>
  The body of the \<^verbatim>\<open>try\<close> (lines 59-77), with the state at the point where it ends or
  throws. \<open>json_parse\<close> is \<^verbatim>\<open>JSON.parse(data) as VocabularyResponse\<close>, \<open>None\<close> when it
  throws. On success \<^verbatim>\<open>this.words\<close> is set to a new empty array, and every word of every
  level is pushed with \<^verbatim>\<open>level\<close> set to the name of its level.
\<close>

definition load_try ::
  "(jsstring \<Rightarrow> VocabularyResponse option) \<Rightarrow> http_outcome \<Rightarrow> JapaneseWordManager \<Rightarrow> world
     \<Rightarrow> (js_error + unit) \<times> JapaneseWordManager \<times> world" where
  "load_try json_parse net m s =
     (case makeApiRequest net of
        Inl e \<Rightarrow> (Inl e, m, s)
      | Inr body \<Rightarrow>
          (case json_parse body of
             None \<Rightarrow> (Inl JsonSyntaxError, m, s)
           | Some response \<Rightarrow>
               if success response then
                 (let (a, s1) = alloc [] s;
                      m1 = m\<lparr>words := a\<rparr>;
                      s2 = fold (\<lambda>(level1, levelWords) s'.
                             fold (\<lambda>word s''. push (words m1) (word\<lparr>level := Some level1\<rparr>) s'')
                               levelWords s')
                             (data response) s1
                  in (Inr (), m1, s2))
               else (Inl ApiResponseFailed, m, s)))"

text \<open>How the promise of an \<^verbatim>\<open>async\<close> function settles.\<close>

datatype completion = Fulfilled | Rejected js_error

text \<open>
  \<^verbatim>\<open>loadVocabularyData\<close> (lines 57-84): the \<^verbatim>\<open>catch\<close> shows one error message and
  loads the default words. The result is how the promise settles, the messages shown to
  the user in order, and the manager and the world afterwards. The console output is left
  out.
\<close>

definition loadVocabularyData ::
  "(jsstring \<Rightarrow> VocabularyResponse option) \<Rightarrow> http_outcome \<Rightarrow> JapaneseWordManager \<Rightarrow> world
     \<Rightarrow> completion \<times> notification list \<times> JapaneseWordManager \<times> world" where
  "loadVocabularyData json_parse net m s =
     (case load_try json_parse net m s of
        (Inr u, m1, s1) \<Rightarrow> (Fulfilled, [], m1, s1)
      | (Inl error, m1, s1) \<Rightarrow>
          (let (m2, s2) = loadDefaultWords m1 s1
           in (Fulfilled, [ErrorMessage msg_load_failed], m2, s2)))"

text \<open>
  The load fails when the \<^verbatim>\<open>try\<close> throws: the request is rejected (network error,
  timeout, a status other than 200), the body does not parse, or the payload says
  \<^verbatim>\<open>success: false\<close>.
\<close>

definition load_fails ::
  "(jsstring \<Rightarrow> VocabularyResponse option) \<Rightarrow> http_outcome \<Rightarrow> bool" where
  "load_fails json_parse net =
     (case makeApiRequest net of
        Inl e \<Rightarrow> True
      | Inr body \<Rightarrow> (case json_parse body of None \<Rightarrow> True | Some response \<Rightarrow> \<not> success response))"

text \<open>
  The invariant of a word in the specification: its written forms, readings and meanings
  are not empty (a single string counts as a sequence of one).
\<close>

fun nonempty_field :: "str_or_array \<Rightarrow> bool" where
  "nonempty_field (Str x) = True"
| "nonempty_field (Arr xs) = (xs \<noteq> [])"

definition well_formed :: "JapaneseWord \<Rightarrow> bool" where
  "well_formed w = (nonempty_field (japanese w) \<and> nonempty_field (reading w) \<and> nonempty_field (chinese w))"

subsection \<open>The shuffle in the words of the specification\<close>




subsection \<open>Concrete stores\<close>

text \<open>The value 0 of \<^verbatim>\<open>Math.random()\<close>.\<close>

lift_definition draw_zero :: unit_real is 0
  by simp

text \<open>A manager whose \<^verbatim>\<open>words\<close> is the array at address 0.\<close>

definition store0 :: JapaneseWordManager where
  "store0 = \<lparr>words = 0, currentWord = None\<rparr>"

text \<open>The world after the fallback: the default words at address 0.\<close>

definition fallback_world :: world where
  "fallback_world =
     \<lparr>arrays = (\<lambda>a. if a = 0 then defaultWords else []), next_addr = 1,
      rand_seq = (\<lambda>i. draw_zero), rand_pos = 0\<rparr>"

text \<open>The world at startup: the array at address 0 is empty.\<close>

definition empty_world :: world where
  "empty_world = \<lparr>arrays = (\<lambda>a. []), next_addr = 1, rand_seq = (\<lambda>i. draw_zero), rand_pos = 0\<rparr>"

text \<open>Two words with the ids "1" and "2" and the same meaning "X".\<close>

definition twin_a :: JapaneseWord where
  "twin_a = \<lparr>id_w = [0x31], japanese = Str [0x41], reading = Str [0x61], kana = Str [0x61],
     chinese = Str [0x58], category = [], level = None, partOfSpeech = None, examples = None\<rparr>"

definition twin_b :: JapaneseWord where
  "twin_b = \<lparr>id_w = [0x32], japanese = Str [0x42], reading = Str [0x62], kana = Str [0x62],
     chinese = Str [0x58], category = [], level = None, partOfSpeech = None, examples = None\<rparr>"

definition twin_world :: world where
  "twin_world =
     \<lparr>arrays = (\<lambda>a. if a = 0 then [twin_a, twin_b] else []), next_addr = 1,
      rand_seq = (\<lambda>i. draw_zero), rand_pos = 0\<rparr>"

text \<open>A single word with one example sentence.\<close>

definition example_word :: JapaneseWord where
  "example_word = \<lparr>id_w = [0x31], japanese = Str [0x5B66, 0x6821],
     reading = Str [0x304C, 0x3063, 0x3053, 0x3046], kana = Str [0x304C, 0x3063, 0x3053, 0x3046],
     chinese = Arr [[0x5B78, 0x6821]], category = [0x540D, 0x8A5E], level = Some [0x4E, 0x35],
     partOfSpeech = None,
     examples = Some [\<lparr>ex_japanese = [0x5B66, 0x6821, 0x3078], ex_chinese = [0x53BB, 0x5B78, 0x6821]\<rparr>]\<rparr>"

definition example_world :: world where
  "example_world =
     \<lparr>arrays = (\<lambda>a. if a = 0 then [example_word] else []), next_addr = 1,
      rand_seq = (\<lambda>i. draw_zero), rand_pos = 0\<rparr>"

section \<open>Properties\<close>

subsection \<open>The random source and \<^verbatim>\<open>getRandomWord\<close>\<close>

lemma floor_scaled_less:
  assumes "0 < n"
  shows "floor_scaled u n < n"
proof -
  have "0 \<le> Rep_unit_real u" and "Rep_unit_real u < 1"
    using Rep_unit_real [of u] by simp_all
  with assms have "0 \<le> Rep_unit_real u * real n" and "Rep_unit_real u * real n < real n"
    by simp_all
  then have "0 \<le> \<lfloor>Rep_unit_real u * real n\<rfloor>" and "\<lfloor>Rep_unit_real u * real n\<rfloor> < int n"
    by (simp_all add: floor_less_iff)
  then show ?thesis
    unfolding floor_scaled_def by linarith
qed

lemma floor_scaled_draw_zero [simp]: "floor_scaled draw_zero n = 0"
  by (simp add: floor_scaled_def draw_zero.rep_eq)

lemma random_index_fst: "0 < n \<Longrightarrow> fst (random_index n s) < n"
  by (simp add: random_index_def floor_scaled_less)

lemma random_index_arrays [simp]: "arrays (snd (random_index n s)) = arrays s"
  by (simp add: random_index_def)

lemma getRandomWord_nonempty:
  assumes "arrays s (words m) \<noteq> []"
  shows "\<exists>w \<in> set (arrays s (words m)).
           getRandomWord m s = (Some w, snd (random_index (length (arrays s (words m))) s))"
proof -
  let ?xs = "arrays s (words m)"
  let ?k = "fst (random_index (length ?xs) s)"
  from assms have k: "?k < length ?xs" by (simp add: random_index_fst)
  then have "?xs ! ?k \<in> set ?xs" by simp
  moreover have "getRandomWord m s = (Some (?xs ! ?k), snd (random_index (length ?xs) s))"
    using assms k by (simp add: getRandomWord_def split_beta array_get_def)
  ultimately show ?thesis by blast
qed

text \<open>
  Claim C7. On a non-empty collection \<^verbatim>\<open>getRandomWord\<close> returns a word of the
  collection, never \<^verbatim>\<open>null\<close>; on the empty collection it returns \<^verbatim>\<open>null\<close> (and
  does not touch the random source), whatever the random source holds.
\<close>

theorem getRandomWord_some_iff_nonempty:
  "(arrays s (words m) \<noteq> [] \<longrightarrow>
      (\<exists>w \<in> set (arrays s (words m)). fst (getRandomWord m s) = Some w)) \<and>
   (arrays s (words m) = [] \<longrightarrow> getRandomWord m s = (None, s))"
proof (cases "arrays s (words m) = []")
  case True
  then show ?thesis by (simp add: getRandomWord_def)
next
  case False
  from getRandomWord_nonempty [OF False] show ?thesis using False by force
qed

theorem getRandomWord_some_iff_nonempty_witness:
  "arrays fallback_world (words store0) \<noteq> [] \<and>
   (\<exists>w \<in> set (arrays fallback_world (words store0)).
      fst (getRandomWord store0 fallback_world) = Some w) \<and>
   arrays empty_world (words store0) = [] \<and>
   getRandomWord store0 empty_world = (None, empty_world)"
  using getRandomWord_some_iff_nonempty [of fallback_world store0]
    getRandomWord_some_iff_nonempty [of empty_world store0]
  by (simp add: fallback_world_def empty_world_def store0_def defaultWords_def)

subsection \<open>The sampling loop\<close>

lemma sample_loop_stop:
  "\<not> (length ms < n \<and> arrays s a \<noteq> []) \<Longrightarrow> sample_loop proj n a ms s = (ms, s)"
  by (subst sample_loop.simps) auto

lemma sample_loop_step:
  assumes "length ms < n" and "arrays s a \<noteq> []"
  shows "sample_loop proj n a ms s =
    (let k = floor_scaled (rand_seq s (rand_pos s)) (length (arrays s a));
         v = proj (arrays s a ! k)
     in sample_loop proj n a (if v \<in> set ms then ms else ms @ [v])
          (splice_js a k (s\<lparr>rand_pos := Suc (rand_pos s)\<rparr>)))"
  using assms by (subst sample_loop.simps) (simp add: random_index_def Let_def)

lemma set_without_nth:
  assumes "k < length xs"
  shows "insert (xs ! k) (set (take k xs @ drop (Suc k) xs)) = set xs"
proof -
  from assms have "xs = take k xs @ xs ! k # drop (Suc k) xs" by (rule id_take_nth_drop)
  then have "set xs = set (take k xs @ xs ! k # drop (Suc k) xs)" by simp
  then show ?thesis by auto
qed

lemma values_after_draw:
  "insert x Y = X \<Longrightarrow>
     set (if f x \<in> set ms then ms else ms @ [f x]) \<union> f ` Y = set ms \<union> f ` X"
  by auto

text \<open>
  What one run of the loop keeps: the values collected and the values still in the pool
  are together the values of the starting pool; the result stays free of duplicates and
  within \<open>n\<close>; the loop ends only with \<open>n\<close> values or an empty pool; no other array
  changes; and every call of \<^verbatim>\<open>Math.random()\<close> takes one word out of the pool.
\<close>

lemma sample_loop_inv:
  "sample_loop proj n a ms s = (r, s') \<Longrightarrow>
     set r \<union> proj ` set (arrays s' a) = set ms \<union> proj ` set (arrays s a) \<and>
     (distinct ms \<longrightarrow> distinct r) \<and>
     (length ms \<le> n \<longrightarrow> length r \<le> n) \<and>
     \<not> (length r < n \<and> arrays s' a \<noteq> []) \<and>
     (\<forall>b. b \<noteq> a \<longrightarrow> arrays s' b = arrays s b) \<and>
     next_addr s' = next_addr s \<and> rand_seq s' = rand_seq s \<and>
     rand_pos s' + length (arrays s' a) = rand_pos s + length (arrays s a) \<and>
     rand_pos s \<le> rand_pos s'"
proof (induction "length (arrays s a)" arbitrary: ms s)
  case 0
  then have "sample_loop proj n a ms s = (ms, s)" by (simp add: sample_loop_stop)
  with 0 show ?case by auto
next
  case (Suc l)
  show ?case
  proof (cases "length ms < n")
    case False
    then have "sample_loop proj n a ms s = (ms, s)" by (simp add: sample_loop_stop)
    with Suc.prems False show ?thesis by auto
  next
    case True
    let ?xs = "arrays s a"
    let ?k = "floor_scaled (rand_seq s (rand_pos s)) (length ?xs)"
    let ?v = "proj (?xs ! ?k)"
    let ?ms = "if ?v \<in> set ms then ms else ms @ [?v]"
    let ?s = "splice_js a ?k (s\<lparr>rand_pos := Suc (rand_pos s)\<rparr>)"
    from Suc.hyps(2) have ne: "?xs \<noteq> []" by auto
    then have k: "?k < length ?xs" by (simp add: floor_scaled_less)
    have run: "sample_loop proj n a ?ms ?s = (r, s')"
      using sample_loop_step [OF True ne, of proj] Suc.prems by (simp add: Let_def)
    have arr: "arrays ?s a = take ?k ?xs @ drop (Suc ?k) ?xs"
      by (simp add: splice_js_def)
    have len: "l = length (arrays ?s a)"
      using Suc.hyps(2) k by (simp add: arr)
    note IH = Suc.hyps(1) [OF len run]
    have sets: "insert (?xs ! ?k) (set (arrays ?s a)) = set ?xs"
      using set_without_nth [OF k] by (simp add: arr)
    have vals: "set ?ms \<union> proj ` set (arrays ?s a) = set ms \<union> proj ` set ?xs"
      by (rule values_after_draw [OF sets])
    have other: "\<And>b. b \<noteq> a \<Longrightarrow> arrays ?s b = arrays s b"
      by (simp add: splice_js_def)
    have misc: "next_addr ?s = next_addr s" "rand_seq ?s = rand_seq s"
      "rand_pos ?s = Suc (rand_pos s)"
      by (simp_all add: splice_js_def)
    have d: "distinct ms \<Longrightarrow> distinct ?ms" by simp
    have l: "length ?ms \<le> n" using True by simp
    show ?thesis
      using IH vals other misc d l len Suc.hyps(2) by (simp; metis)
  qed
qed

lemma project_eta:
  "(\<lambda>randomWord. first_of (chinese randomWord)) = project Meaning"
  "(\<lambda>randomWord. first_of (reading randomWord)) = project Reading"
  "(\<lambda>randomWord. first_of (japanese randomWord)) = project WrittenForm"
  by (rule ext, simp)+

lemma sample_unfold:
  "sample p e n m s =
     sample_loop (project p) n (next_addr s) [] (snd (alloc (candidate_pool e m s) s))"
  by (cases p)
     (simp_all add: getRandomMeanings_def getRandomReadings_def getRandomWords_def
        alloc_def candidate_pool_def project_eta)

lemma sample_facts:
  assumes "sample p e n m s = (r, s')"
  shows "set r \<union> project p ` set (arrays s' (next_addr s)) = project p ` set (candidate_pool e m s)"
    and "distinct r" and "length r \<le> n"
    and "\<not> (length r < n \<and> arrays s' (next_addr s) \<noteq> [])"
    and "\<And>b. b \<noteq> next_addr s \<Longrightarrow> arrays s' b = arrays s b"
    and "rand_pos s' + length (arrays s' (next_addr s)) = rand_pos s + length (candidate_pool e m s)"
    and "rand_pos s \<le> rand_pos s'"
proof -
  let ?s0 = "snd (alloc (candidate_pool e m s) s)"
  have run: "sample_loop (project p) n (next_addr s) [] ?s0 = (r, s')"
    using assms by (simp add: sample_unfold)
  note inv = sample_loop_inv [OF run]
  have a0: "arrays ?s0 (next_addr s) = candidate_pool e m s"
    and b0: "\<And>b. b \<noteq> next_addr s \<Longrightarrow> arrays ?s0 b = arrays s b"
    and p0: "rand_pos ?s0 = rand_pos s"
    by (simp_all add: alloc_def)
  from inv show "set r \<union> project p ` set (arrays s' (next_addr s))
      = project p ` set (candidate_pool e m s)"
    by (simp add: a0)
  from inv show "distinct r" by simp
  from inv show "length r \<le> n" by simp
  from inv show "\<not> (length r < n \<and> arrays s' (next_addr s) \<noteq> [])" by blast
  from inv show "\<And>b. b \<noteq> next_addr s \<Longrightarrow> arrays s' b = arrays s b"
    using b0 by simp
  from inv show "rand_pos s' + length (arrays s' (next_addr s))
      = rand_pos s + length (candidate_pool e m s)"
    by (simp add: a0 p0)
  from inv show "rand_pos s \<le> rand_pos s'"
    by (simp add: p0)
qed

text \<open>
  Claim C2, as amended. Every value of the result of \<open>sample\<close> is projected from a word of
  the candidate pool, that is from a word of the store whose id is not \<^verbatim>\<open>excludeId\<close>;
  so the projected value of a word appears in the result only if a word of the pool
  projects to it. (The value of the excluded word itself does appear when another word
  has the same value, as the store of two twins below shows.)
\<close>

theorem sample_values_from_pool:
  "set (fst (sample p excludeId count_n m s))
     \<subseteq> project p ` set (candidate_pool excludeId m s) \<and>
   (project p w \<notin> project p ` set (candidate_pool excludeId m s)
      \<longrightarrow> project p w \<notin> set (fst (sample p excludeId count_n m s)))"
proof (cases "sample p excludeId count_n m s")
  case (Pair r s')
  from sample_facts(1) [OF Pair] have "set r \<subseteq> project p ` set (candidate_pool excludeId m s)"
    by blast
  then show ?thesis unfolding Pair fst_conv by blast
qed

theorem sample_values_from_pool_witness:
  "id_w (hd defaultWords) = [0x31] \<and>
   project Meaning (hd defaultWords)
     \<notin> project Meaning ` set (candidate_pool [0x31] store0 fallback_world) \<and>
   project Meaning (hd defaultWords)
     \<notin> set (fst (sample Meaning [0x31] 3 store0 fallback_world))"
proof -
  have pool: "project Meaning (hd defaultWords)
     \<notin> project Meaning ` set (candidate_pool [0x31] store0 fallback_world)"
    by (simp add: candidate_pool_def store0_def fallback_world_def defaultWords_def)
  with sample_values_from_pool [of Meaning "[0x31]" 3 store0 fallback_world "hd defaultWords"]
  show ?thesis by (simp add: defaultWords_def)
qed

text \<open>
  Claim C2, as stated, fails: in a store of two words with the ids "1" and "2" and the
  same meaning, the sample that excludes "1" contains the meaning of the word "1".
\<close>

theorem sample_includes_shared_value:
  "twin_a \<in> set (arrays twin_world (words store0)) \<and> id_w twin_a = [0x31] \<and>
   project Meaning twin_a \<in> set (fst (sample Meaning [0x31] 3 store0 twin_world))"
  by (simp add: getRandomMeanings_def alloc_def twin_world_def store0_def twin_a_def twin_b_def
      sample_loop.simps random_index_def splice_js_def Let_def)

text \<open>
  Claim C3. The result of \<open>sample\<close> has no duplicate value and at most \<^verbatim>\<open>count\<close> values,
  for every projection, store, excluded id and count.
\<close>

theorem sample_distinct_and_bounded:
  "distinct (fst (sample p excludeId count_n m s)) \<and>
   length (fst (sample p excludeId count_n m s)) \<le> count_n"
  using sample_facts(2,3) [of p excludeId count_n m s]
  by (cases "sample p excludeId count_n m s") simp

text \<open>
  Claim C5. The loop of \<open>sample\<close> ends (\<open>sample_loop\<close> is total: each round shortens the
  pool) after at most as many rounds as the candidate pool has words. Each round calls
  \<^verbatim>\<open>Math.random()\<close> once, so the rounds are the calls counted by \<open>rand_pos\<close>; and the
  local pool, at the address the call allocated, has lost exactly one word per round,
  whether or not the value was appended.
\<close>

theorem sample_rounds_bounded:
  "rand_pos (snd (sample p excludeId count_n m s)) - rand_pos s
     \<le> length (candidate_pool excludeId m s) \<and>
   length (arrays (snd (sample p excludeId count_n m s)) (next_addr s))
     + (rand_pos (snd (sample p excludeId count_n m s)) - rand_pos s)
     = length (candidate_pool excludeId m s)"
proof (cases "sample p excludeId count_n m s")
  case (Pair r s')
  from sample_facts(6,7) [OF Pair] show ?thesis unfolding Pair snd_conv by arith
qed

text \<open>
  Claim C9. \<open>sample\<close> leaves the store as it was: the array that \<^verbatim>\<open>this.words\<close> refers
  to (any array allocated before the call) has the same contents afterwards, since
  \<^verbatim>\<open>filter\<close> gives the loop a new array to consume.
\<close>

theorem sample_leaves_store:
  assumes "words m < next_addr s"
  shows "arrays (snd (sample p excludeId count_n m s)) (words m) = arrays s (words m)"
proof (cases "sample p excludeId count_n m s")
  case (Pair r s')
  from assms have "words m \<noteq> next_addr s" by simp
  from sample_facts(5) [OF Pair this] show ?thesis by (simp add: Pair)
qed

theorem sample_leaves_store_witness:
  "words store0 < next_addr fallback_world \<and>
   arrays (snd (sample Meaning [0x31] 3 store0 fallback_world)) (words store0) = defaultWords"
proof -
  have alloc: "words store0 < next_addr fallback_world"
    by (simp add: store0_def fallback_world_def)
  from sample_leaves_store [OF alloc, of Meaning "[0x31]" 3] alloc
  show ?thesis by (simp add: store0_def fallback_world_def)
qed

text \<open>
  Claim C10. The result of \<open>sample\<close> has exactly the smaller of \<^verbatim>\<open>count\<close> and the number
  of distinct projected values among the words whose id is not \<^verbatim>\<open>excludeId\<close>.
\<close>

theorem sample_length_exact:
  "length (fst (sample p excludeId count_n m s))
     = min count_n (card (project p ` set (candidate_pool excludeId m s)))"
proof (cases "sample p excludeId count_n m s")
  case (Pair r s')
  let ?V = "project p ` set (candidate_pool excludeId m s)"
  note f = sample_facts [OF Pair]
  have fin: "finite ?V" by simp
  have sub: "set r \<subseteq> ?V" using f(1) by blast
  have len: "length r = card (set r)" using f(2) by (simp add: distinct_card)
  have le: "length r \<le> card ?V" using card_mono [OF fin sub] len by simp
  show ?thesis
  proof (cases "arrays s' (next_addr s) = []")
    case True
    with f(1) have "set r = ?V" by simp
    with len f(3) show ?thesis by (simp add: Pair)
  next
    case False
    with f(4) f(3) have "length r = count_n" by simp
    with le show ?thesis by (simp add: Pair)
  qed
qed

subsection \<open>The shuffle\<close>

lemma swap_mset: "i < length xs \<Longrightarrow> j < length xs \<Longrightarrow> mset (swap i j xs) = mset xs"
  unfolding swap_def by (rule mset_swap)

lemma shuffle_loop_mset:
  "i < length xs \<or> i = 0 \<Longrightarrow> mset (fst (shuffle_loop i xs s)) = mset xs"
proof (induction i arbitrary: xs s)
  case 0
  show ?case by simp
next
  case (Suc i)
  let ?j = "fst (random_index (Suc i + 1) s)"
  from Suc.prems have i: "Suc i < length xs" by simp
  have "?j < Suc i + 1" by (rule random_index_fst) simp
  with i have j: "?j < length xs" by simp
  have "mset (fst (shuffle_loop i (swap (Suc i) ?j xs) (snd (random_index (Suc i + 1) s))))
      = mset (swap (Suc i) ?j xs)"
    using i by (intro Suc.IH) (simp add: swap_def)
  also have "\<dots> = mset xs" using i j by (rule swap_mset)
  finally show ?case by (simp add: split_beta)
qed

lemma shuffle_mset: "mset (fst (shuffle xs s)) = mset xs"
  unfolding shuffle_def by (rule shuffle_loop_mset) (cases xs, simp_all)







subsection \<open>The quiz question\<close>

lemma filter_make_options:
  "filter isCorrect (make_options ca ws) = [\<lparr>option_text = ca, isCorrect = True\<rparr>]"
  by (simp add: make_options_def filter_empty_conv)

lemma filter_shuffled_options:
  "filter isCorrect (fst (shuffle (make_options ca ws) s)) = [\<lparr>option_text = ca, isCorrect = True\<rparr>]"
proof -
  have "mset (filter isCorrect (fst (shuffle (make_options ca ws) s)))
      = mset (filter isCorrect (make_options ca ws))"
    by (simp only: mset_filter shuffle_mset)
  then have "mset (filter isCorrect (fst (shuffle (make_options ca ws) s)))
      = {#\<lparr>option_text = ca, isCorrect = True\<rparr>#}"
    by (simp only: filter_make_options mset.simps)
  then show ?thesis by (simp only: mset_single_iff)
qed

text \<open>
  Claim C1. On a non-empty store \<^verbatim>\<open>generateQuizQuestion\<close> returns a question, and the
  options of the question that are tagged correct are exactly one option, whose text is
  the \<^verbatim>\<open>correctAnswer\<close> of the question.
\<close>

theorem generateQuizQuestion_one_correct:
  assumes "arrays s (words m) \<noteq> []"
  shows "\<exists>q. fst (generateQuizQuestion (Some m) s) = Some q \<and>
           filter isCorrect (options q) = [\<lparr>option_text = correctAnswer q, isCorrect = True\<rparr>]"
proof -
  from getRandomWord_nonempty [OF assms] obtain w s1 where
    w: "getRandomWord m s = (Some w, s1)" by blast
  show ?thesis
    using assms w
    by (simp add: generateQuizQuestion_def getWordsCount_def getRandomWordForQuiz_def
        split_beta Let_def filter_shuffled_options)
qed

theorem generateQuizQuestion_one_correct_witness:
  "arrays fallback_world (words store0) \<noteq> [] \<and>
   (\<exists>q. fst (generateQuizQuestion (Some store0) fallback_world) = Some q \<and>
      filter isCorrect (options q) = [\<lparr>option_text = correctAnswer q, isCorrect = True\<rparr>])"
proof -
  have store: "arrays fallback_world (words store0) \<noteq> []"
    by (simp add: store0_def fallback_world_def defaultWords_def)
  from generateQuizQuestion_one_correct [OF store] store show ?thesis by (intro conjI)
qed

subsection \<open>The example-sentence question\<close>

lemma has_examples_D: "has_examples w \<Longrightarrow> \<exists>es. examples w = Some es \<and> es \<noteq> []"
  by (cases "examples w") (simp_all add: has_examples_def)

text \<open>
  Claim C8. When no word of the store has an example, \<^verbatim>\<open>showExampleQuiz\<close> puts no
  question: it shows the message for an empty store or the message that no example is
  available. Otherwise it puts a question whose target is a word of the store with at
  least one example, whose correct answer is the first meaning of the target, and whose
  text ends with the two sentences of an example of the target, after the template.
\<close>

theorem showExampleQuiz_question:
  "(getWordsWithExamples wm s = [] \<longrightarrow>
      fst (showExampleQuiz wm s) = Inl (WarningMessage msg_load_first) \<or>
      fst (showExampleQuiz wm s) = Inl (InformationMessage msg_no_examples)) \<and>
   (getWordsWithExamples wm s \<noteq> [] \<longrightarrow>
      (\<exists>m q ex es. wm = Some m \<and> fst (showExampleQuiz wm s) = Inr (q, ex) \<and>
         targetWord q \<in> set (arrays s (words m)) \<and>
         examples (targetWord q) = Some es \<and> ex \<in> set es \<and>
         correctAnswer q = first_of (chinese (targetWord q)) \<and>
         filter isCorrect (options q) = [\<lparr>option_text = correctAnswer q, isCorrect = True\<rparr>] \<and>
         questionText q = ex_prefix @ template_str (first_of (japanese (targetWord q)))
           @ ex_middle @ ex_japanese ex @ newline @ ex_chinese ex))"
proof (cases "getWordsWithExamples wm s = []")
  case True
  then show ?thesis
    by (cases wm) (simp_all add: showExampleQuiz_def Let_def)
next
  case False
  then obtain m where wm: "wm = Some m" by (cases wm) (simp_all add: getWordsWithExamples_def)
  let ?ws = "getWordsWithExamples wm s"
  let ?k = "fst (random_index (length ?ws) s)"
  let ?s1 = "snd (random_index (length ?ws) s)"
  let ?w = "?ws ! ?k"
  from False have k: "?k < length ?ws" by (simp add: random_index_fst)
  then have mem: "?w \<in> set ?ws" by simp
  then have in_store: "?w \<in> set (arrays s (words m))" and "has_examples ?w"
    by (simp_all add: wm getWordsWithExamples_def)
  then obtain es where es: "examples ?w = Some es" "es \<noteq> []"
    using has_examples_D by blast
  let ?e = "fst (random_index (length es) ?s1)"
  from es have e: "?e < length es" by (simp add: random_index_fst)
  then have ex: "es ! ?e \<in> set es" by simp
  have store: "arrays s (words m) \<noteq> []" using in_store by auto
  show ?thesis
    using False wm store es e ex in_store
    by (simp add: showExampleQuiz_def getWordsCount_def Let_def split_beta array_get_def
        filter_shuffled_options)
qed

theorem showExampleQuiz_question_witness:
  "getWordsWithExamples (Some store0) fallback_world = [] \<and>
   fst (showExampleQuiz (Some store0) fallback_world) = Inl (InformationMessage msg_no_examples) \<and>
   getWordsWithExamples (Some store0) example_world \<noteq> [] \<and>
   (\<exists>q ex. fst (showExampleQuiz (Some store0) example_world) = Inr (q, ex) \<and>
      targetWord q = example_word \<and>
      ex = \<lparr>ex_japanese = [0x5B66, 0x6821, 0x3078], ex_chinese = [0x53BB, 0x5B78, 0x6821]\<rparr> \<and>
      correctAnswer q = Some [0x5B78, 0x6821] \<and>
      questionText q = ex_prefix @ [0x5B66, 0x6821] @ ex_middle
        @ [0x5B66, 0x6821, 0x3078] @ newline @ [0x53BB, 0x5B78, 0x6821])"
proof -
  have none: "getWordsWithExamples (Some store0) fallback_world = []"
    by (simp add: getWordsWithExamples_def store0_def fallback_world_def defaultWords_def
        has_examples_def)
  have some: "getWordsWithExamples (Some store0) example_world \<noteq> []"
    by (simp add: getWordsWithExamples_def store0_def example_world_def example_word_def
        has_examples_def)
  have store: "arrays example_world (words store0) = [example_word]"
    by (simp add: store0_def example_world_def)
  have exs: "examples example_word
      = Some [\<lparr>ex_japanese = [0x5B66, 0x6821, 0x3078], ex_chinese = [0x53BB, 0x5B78, 0x6821]\<rparr>]"
    "first_of (chinese example_word) = Some [0x5B78, 0x6821]"
    "first_of (japanese example_word) = Some [0x5B66, 0x6821]"
    by (simp_all add: example_word_def)
  have message: "msg_load_first \<noteq> msg_no_examples"
    by (simp add: msg_load_first_def msg_no_examples_def)
  from showExampleQuiz_question [of "Some store0" fallback_world] none
  have first: "fst (showExampleQuiz (Some store0) fallback_world)
      = Inl (InformationMessage msg_no_examples)"
    by (simp add: showExampleQuiz_def getWordsCount_def store0_def fallback_world_def
        defaultWords_def Let_def)
  from showExampleQuiz_question [of "Some store0" example_world] some
  obtain q ex es where q: "fst (showExampleQuiz (Some store0) example_world) = Inr (q, ex)"
    "targetWord q \<in> set (arrays example_world (words store0))"
    "examples (targetWord q) = Some es" "ex \<in> set es"
    "correctAnswer q = first_of (chinese (targetWord q))"
    "questionText q = ex_prefix @ template_str (first_of (japanese (targetWord q)))
           @ ex_middle @ ex_japanese ex @ newline @ ex_chinese ex"
    by auto
  from q(2) have t: "targetWord q = example_word" by (simp add: store)
  with q(3,4) exs(1)
  have e: "ex = \<lparr>ex_japanese = [0x5B66, 0x6821, 0x3078], ex_chinese = [0x53BB, 0x5B78, 0x6821]\<rparr>"
    by auto
  from q(1,5,6) t e exs(2,3) none first some show ?thesis by simp
qed

subsection \<open>Loading the vocabulary\<close>

lemma load_try_fails:
  "load_fails json_parse net \<Longrightarrow> \<exists>e. load_try json_parse net m s = (Inl e, m, s)"
  by (auto simp: load_fails_def load_try_def split: sum.splits option.splits)

lemma defaultWords_facts:
  "length defaultWords = 3" "list_all well_formed defaultWords" "distinct (map id_w defaultWords)"
  by (simp_all add: defaultWords_def well_formed_def)

text \<open>
  Claim C6. When the load fails (the request is rejected by a network error, the timeout
  or a status other than 200, the body does not parse, or the payload is not a success),
  the promise of \<^verbatim>\<open>loadVocabularyData\<close> is still fulfilled, exactly one message is
  shown to the user, and \<^verbatim>\<open>this.words\<close> holds the three default words, which are
  well formed and have distinct ids: \<^verbatim>\<open>getWordsCount\<close> is 3.
\<close>

theorem loadVocabularyData_fallback:
  assumes "load_fails json_parse net"
  shows "\<exists>m' s'. loadVocabularyData json_parse net m s
             = (Fulfilled, [ErrorMessage msg_load_failed], m', s') \<and>
           arrays s' (words m') = defaultWords \<and>
           getWordsCount m' s' = 3 \<and>
           list_all well_formed (arrays s' (words m')) \<and>
           distinct (map id_w (arrays s' (words m')))"
proof -
  from load_try_fails [OF assms] obtain e where "load_try json_parse net m s = (Inl e, m, s)" ..
  then show ?thesis
    by (simp add: loadVocabularyData_def loadDefaultWords_def alloc_def getWordsCount_def
        defaultWords_facts)
qed

theorem loadVocabularyData_fallback_witness:
  "load_fails (\<lambda>body. Some \<lparr>success = False, data = []\<rparr>) (Responded 200 []) \<and>
   load_fails (\<lambda>body. None) TimedOut \<and>
   (\<exists>m' s'. loadVocabularyData (\<lambda>body. Some \<lparr>success = False, data = []\<rparr>) (Responded 200 [])
        store0 empty_world
      = (Fulfilled, [ErrorMessage msg_load_failed], m', s') \<and>
      arrays s' (words m') = defaultWords \<and> getWordsCount m' s' = 3)"
proof -
  have fails: "load_fails (\<lambda>body. Some \<lparr>success = False, data = []\<rparr>) (Responded 200 [])"
    by (simp add: load_fails_def)
  have timeout: "load_fails (\<lambda>body. None) TimedOut"
    by (simp add: load_fails_def)
  from loadVocabularyData_fallback [OF fails, of store0 empty_world] fails timeout
  show ?thesis by blast
qed

subsection \<open>The store is an allocated array\<close>

text \<open>
  The two writers of \<^verbatim>\<open>this.words\<close>, the constructor and the load, leave it referring
  to an array below the next free address: the premise under which the sampler is shown
  to leave the store alone holds in every world the program reaches.
\<close>

lemma new_JapaneseWordManager_allocated:
  "new_JapaneseWordManager s = (m, s') \<Longrightarrow> words m < next_addr s'"
  by (auto simp: new_JapaneseWordManager_def alloc_def)

lemma fold_push_next_addr:
  "next_addr (fold (\<lambda>word s''. push a (f word) s'') ws s) = next_addr s"
  by (induction ws arbitrary: s) (simp_all add: push_def)

lemma fold_levels_next_addr:
  "next_addr (fold (\<lambda>(level1, levelWords) s'.
      fold (\<lambda>word s''. push a (word\<lparr>level := Some level1\<rparr>) s'') levelWords s') entries s)
    = next_addr s"
  by (induction entries arbitrary: s) (simp_all add: split_beta fold_push_next_addr)

lemma loadVocabularyData_allocated:
  assumes "loadVocabularyData json_parse net m s = (c, ns, m', s')"
  shows "words m' < next_addr s'"
proof (cases "load_fails json_parse net")
  case True
  from load_try_fails [OF True] obtain e where "load_try json_parse net m s = (Inl e, m, s)" ..
  with assms show ?thesis
    by (auto simp: loadVocabularyData_def loadDefaultWords_def alloc_def)
next
  case False
  then obtain body response where ok: "makeApiRequest net = Inr body"
    "json_parse body = Some response" "success response"
    by (auto simp: load_fails_def split: sum.splits option.splits)
  with assms show ?thesis
    by (auto simp: loadVocabularyData_def load_try_def alloc_def fold_levels_next_addr)
qed

end
